theory Spec2Isabelle
  imports Complex_Main
begin

section \<open>Values, errors and Python primitives\<close>

text \<open>
  The embedding follows \<^verbatim>\<open>daemon3.py\<close>. Exceptions are values: a function that can raise
  returns \<open>error + 'a\<close>, with \<open>Inl\<close> the exception that leaves the function.
\<close>

datatype error =
    ConnectionError | RequestException | TypeError | ValueError | KeyError
  | IndexError | OverflowError

text \<open>
  The values the master delivers in \<^verbatim>\<open>data.value\<close> and that the sensor attributes hold:
  \<^verbatim>\<open>None\<close>, an integer or a string. On these, Python's \<^verbatim>\<open>==\<close> is equality of the
  constructor and its argument. Strings are ASCII.
\<close>

datatype pyval = PNone | PInt int | PStr string

text \<open>
  A Python float is modelled by the real number it stands for; the rounding of IEEE
  doubles is outside the model. \<^verbatim>\<open>n / 100.0\<close> converts the integer to a float first,
  which raises \<^verbatim>\<open>OverflowError\<close> when the integer rounds beyond the largest double.
\<close>

datatype pynum = IntVal int | FloatVal real

definition to_float :: "pynum \<Rightarrow> real" where
  "to_float v = (case v of IntVal n \<Rightarrow> of_int n | FloatVal x \<Rightarrow> x)"

definition int_truediv :: "int \<Rightarrow> real \<Rightarrow> error + real" where
  "int_truediv n d =
     (if \<bar>n\<bar> \<ge> 2 ^ 1024 - 2 ^ 970 then Inl OverflowError else Inr (of_int n / d))"

text \<open>\<^verbatim>\<open>s[a:b]\<close> for \<open>0 \<le> a \<le> b\<close>: never raises, the range is cut to the string.\<close>

definition py_slice :: "nat \<Rightarrow> nat \<Rightarrow> 'a list \<Rightarrow> 'a list" where
  "py_slice a b s = take (b - a) (drop a s)"

definition is_space :: "char \<Rightarrow> bool" where
  "is_space c = (of_char c \<in> {9, 10, 11, 12, 13, 32 :: nat})"

definition is_hexdigit :: "char \<Rightarrow> bool" where
  "is_hexdigit c =
     (let k = (of_char c :: nat)
      in (48 \<le> k \<and> k \<le> 57) \<or> (65 \<le> k \<and> k \<le> 70) \<or> (97 \<le> k \<and> k \<le> 102))"

definition digit_val :: "char \<Rightarrow> int" where
  "digit_val c =
     (let k = (of_char c :: nat)
      in if k \<le> 57 then int k - 48 else if k \<le> 70 then int k - 55 else int k - 87)"

definition hexval :: "string \<Rightarrow> int" where
  "hexval s = foldl (\<lambda>a c. 16 * a + digit_val c) 0 s"

definition strip :: "string \<Rightarrow> string" where
  "strip s = rev (dropWhile is_space (rev (dropWhile is_space s)))"

text \<open>
  \<^verbatim>\<open>int(s, 16)\<close> on a string, for the Python 3.5 the module's header asks for: white
  space around the numeral is dropped, then one optional sign, then an optional
  \<^verbatim>\<open>0x\<close> or \<^verbatim>\<open>0X\<close>, then at least one hexadecimal digit and nothing else;
  anything else raises \<^verbatim>\<open>ValueError\<close>.
\<close>

definition py_int16 :: "string \<Rightarrow> error + int" where
  "py_int16 s =
     (let t = strip s;
          neg = (t \<noteq> [] \<and> hd t = CHR ''-'');
          u = (if t \<noteq> [] \<and> (hd t = CHR ''-'' \<or> hd t = CHR ''+'') then tl t else t);
          v = (if take 2 u = ''0x'' \<or> take 2 u = ''0X'' then drop 2 u else u)
      in if v \<noteq> [] \<and> list_all is_hexdigit v
         then Inr (if neg then - hexval v else hexval v)
         else Inl ValueError)"

text \<open>
  \<^verbatim>\<open>int(x, 16)\<close> and \<^verbatim>\<open>x[a:b]\<close> on an attribute value: both raise \<^verbatim>\<open>TypeError\<close> on
  \<^verbatim>\<open>None\<close> and on an integer.
\<close>

definition int16_of :: "pyval \<Rightarrow> error + int" where
  "int16_of x = (case x of PStr s \<Rightarrow> py_int16 s | _ \<Rightarrow> Inl TypeError)"

definition slice_of :: "nat \<Rightarrow> nat \<Rightarrow> pyval \<Rightarrow> error + string" where
  "slice_of a b x = (case x of PStr s \<Rightarrow> Inr (py_slice a b s) | _ \<Rightarrow> Inl TypeError)"

definition ebind :: "error + 'a \<Rightarrow> ('a \<Rightarrow> error + 'b) \<Rightarrow> error + 'b" where
  "ebind m f = (case m of Inl e \<Rightarrow> Inl e | Inr x \<Rightarrow> f x)"

section \<open>Sensors and the codec\<close>

text \<open>
  One measurement point as handed to the storage client: the measurement name, the tags
  and the fields. The time stamp (the wall clock) is left out;
  the key \<^verbatim>\<open>fields\<close> of the source is the component \<open>fieldvals\<close>.
\<close>

record datapoint =
  measurement :: string
  tags :: "(string \<times> pyval) list"
  fieldvals :: "(string \<times> pynum) list"

text \<open>
  The attribute \<^verbatim>\<open>json\<close> of a sensor: the empty string the initializer stores, or what
  \<^verbatim>\<open>datatojson\<close> returned, \<^verbatim>\<open>None\<close> or a list of one point.
\<close>

datatype jsonattr = Unset | NoPoints | Points datapoint

record IOLinkSensorInformation =
  sensorport :: nat
  sensortype :: pyval
  sensorname :: pyval
  sensorserial :: pyval
  sensorvendorid :: pyval
  sensordata :: int
  sensorlocalname :: pyval
  sensorprocessdata :: pyval
  json :: jsonattr

text \<open>The initializer with a port given (the only way the module calls it).\<close>

definition new_sensor ::
  "nat \<Rightarrow> pyval \<Rightarrow> pyval \<Rightarrow> pyval \<Rightarrow> pyval \<Rightarrow> pyval \<Rightarrow> pyval \<Rightarrow> IOLinkSensorInformation" where
  "new_sensor prt typ nm ser vid lnm pd =
     \<lparr> sensorport = prt, sensortype = typ, sensorname = nm, sensorserial = ser,
       sensorvendorid = vid, sensordata = - 2, sensorlocalname = lnm,
       sensorprocessdata = pd, json = Unset \<rparr>"

definition sensor_tags :: "string \<Rightarrow> IOLinkSensorInformation \<Rightarrow> (string \<times> pyval) list" where
  "sensor_tags ipx s =
     [(''iolmip'', PStr ipx), (''sensorvendorid'', sensorvendorid s),
      (''sensorserial'', sensorserial s), (''sensorport'', PInt (int (sensorport s))),
      (''sensorlocalname'', sensorlocalname s), (''sensorname'', sensorname s),
      (''sensortype'', sensortype s)]"

text \<open>
  \<^verbatim>\<open>datatojson\<close>. For vendor 310 the types 416 and 417 and the type 446 are decoded; every
  other branch of the chain logs and returns \<^verbatim>\<open>None\<close>, and so does the end of the function
  for another vendor. The four vibration fields are parsed in the order of the source.
\<close>

definition datatojson :: "string \<Rightarrow> IOLinkSensorInformation \<Rightarrow> error + datapoint option" where
  "datatojson ipx s =
     (if sensorvendorid s = PInt 310 then
        if sensortype s = PInt 416 \<or> sensortype s = PInt 417 then
          ebind (slice_of 10 11 (sensorprocessdata s)) (\<lambda>c0.
          ebind (py_int16 c0) (\<lambda>configuration.
          ebind (slice_of 8 10 (sensorprocessdata s)) (\<lambda>d0.
          ebind (py_int16 d0) (\<lambda>diagnosis.
          ebind (slice_of 4 8 (sensorprocessdata s)) (\<lambda>v0.
          ebind (py_int16 v0) (\<lambda>v1.
          ebind (int_truediv v1 100) (\<lambda>velocity.
          ebind (slice_of 0 4 (sensorprocessdata s)) (\<lambda>a0.
          ebind (py_int16 a0) (\<lambda>a1.
          ebind (int_truediv a1 100) (\<lambda>acceleration.
          Inr (Some \<lparr> measurement = ''vibrationEvents'', tags = sensor_tags ipx s,
                      fieldvals = [(''configuration'', IntVal configuration),
                                (''diagnosis'', IntVal diagnosis),
                                (''velocity'', FloatVal velocity),
                                (''acceleration'', FloatVal acceleration)] \<rparr>)))))))))))
        else if sensortype s = PInt 446 then
          ebind (int16_of (sensorprocessdata s)) (\<lambda>t0.
          ebind (int_truediv t0 10) (\<lambda>temperature.
          Inr (Some \<lparr> measurement = ''temperatureEvents'', tags = sensor_tags ipx s,
                      fieldvals = [(''temperature'', FloatVal temperature)] \<rparr>)))
        else Inr None
      else Inr None)"

section \<open>The HTTP interface of the master\<close>

text \<open>
  What a response body is to the program: the envelope \<^verbatim>\<open>{"data": {"value": v}}\<close>, the
  service tree \<^verbatim>\<open>{"data": {"subs": [...]}}\<close> given by the identifier and the number of
  \<^verbatim>\<open>subs\<close> of each entry, or a text that \<^verbatim>\<open>json.loads\<close> rejects.
\<close>

datatype content = Envelope pyval | Tree "(string \<times> nat) list" | NotJson

text \<open>
  What \<^verbatim>\<open>requests.get\<close> does: it raises \<^verbatim>\<open>ConnectTimeout\<close>, \<^verbatim>\<open>ConnectionError\<close> (both
  caught by \<^verbatim>\<open>httpget\<close>) or another exception of the library (not caught), or it returns
  a response with its \<^verbatim>\<open>ok\<close> flag and its body.
\<close>

datatype response =
    RequestsConnectTimeout | RequestsConnectionError | RequestsOther
  | Response bool content

text \<open>
  The master: the answer to the \<open>k\<close>-th request of the engine, for the path asked. The
  engine's state of the conversation is the list of the paths it has requested.
\<close>

type_synonym master = "nat \<Rightarrow> string \<Rightarrow> response"

text \<open>
  \<^verbatim>\<open>httpget\<close> with \<^verbatim>\<open>processed=True\<close> (the default, every call but \<^verbatim>\<open>gettree\<close>). Without a
  response it raises \<^verbatim>\<open>ConnectionError\<close>. On a status that is not ok the argument
  \<^verbatim>\<open>myresponse.status_code()\<close> of the logging call is evaluated first and calls an integer:
  \<^verbatim>\<open>TypeError\<close>; the \<^verbatim>\<open>return None\<close> below it is never reached.
\<close>

definition httpget :: "master \<Rightarrow> string \<Rightarrow> string list \<Rightarrow> error + (pyval \<times> string list)" where
  "httpget w requeststring lg =
     (case w (length lg) requeststring of
        RequestsConnectTimeout \<Rightarrow> Inl ConnectionError
      | RequestsConnectionError \<Rightarrow> Inl ConnectionError
      | RequestsOther \<Rightarrow> Inl RequestException
      | Response ok body \<Rightarrow>
          if ok then
            (case body of
               Envelope vval \<Rightarrow> Inr (vval, lg @ [requeststring])
             | Tree t \<Rightarrow> Inl KeyError
             | NotJson \<Rightarrow> Inl ValueError)
          else Inl TypeError)"

text \<open>\<^verbatim>\<open>httpget\<close> with \<^verbatim>\<open>processed=False\<close>: the body is returned as it is.\<close>

definition httpget_raw :: "master \<Rightarrow> string \<Rightarrow> string list \<Rightarrow> error + (content \<times> string list)" where
  "httpget_raw w requeststring lg =
     (case w (length lg) requeststring of
        RequestsConnectTimeout \<Rightarrow> Inl ConnectionError
      | RequestsConnectionError \<Rightarrow> Inl ConnectionError
      | RequestsOther \<Rightarrow> Inl RequestException
      | Response ok body \<Rightarrow>
          if ok then Inr (body, lg @ [requeststring]) else Inl TypeError)"

text \<open>\<^verbatim>\<open>str\<close> of a port number, and of an attribute value.\<close>

function str_nat :: "nat \<Rightarrow> string" where
  "str_nat n =
     (if n < 10 then [''0123456789'' ! n]
      else str_nat (n div 10) @ [''0123456789'' ! (n mod 10)])"
  by pat_completeness auto
termination
  by (relation "measure id") auto

definition py_str :: "pyval \<Rightarrow> string" where
  "py_str v =
     (case v of
        PNone \<Rightarrow> ''None''
      | PInt n \<Rightarrow> (if n < 0 then CHR ''-'' # str_nat (nat (- n)) else str_nat (nat n))
      | PStr s \<Rightarrow> s)"

text \<open>A string literal \<^verbatim>\<open>+\<close> a value: \<^verbatim>\<open>TypeError\<close> unless the value is a string.\<close>

definition str_operand :: "pyval \<Rightarrow> error + string" where
  "str_operand v = (case v of PStr s \<Rightarrow> Inr s | _ \<Rightarrow> Inl TypeError)"

definition getdevicefamily :: "master \<Rightarrow> string list \<Rightarrow> error + (pyval \<times> string list)" where
  "getdevicefamily w lg = httpget w ''/deviceinfo/devicefamily/getdata'' lg"

definition getproductcode :: "master \<Rightarrow> string list \<Rightarrow> error + (pyval \<times> string list)" where
  "getproductcode w lg = httpget w ''/deviceinfo/productcode/getdata'' lg"

definition getproductserial :: "master \<Rightarrow> string list \<Rightarrow> error + (pyval \<times> string list)" where
  "getproductserial w lg = httpget w ''/deviceinfo/serialnumber/getdata'' lg"

definition getvendor :: "master \<Rightarrow> string list \<Rightarrow> error + (pyval \<times> string list)" where
  "getvendor w lg = httpget w ''/deviceinfo/vendor/getdata'' lg"

definition gettree :: "master \<Rightarrow> string list \<Rightarrow> error + (content \<times> string list)" where
  "gettree w lg = httpget_raw w ''/gettree'' lg"

definition port_path :: "nat \<Rightarrow> string \<Rightarrow> string" where
  "port_path xport field =
     ''/iolinkmaster/port['' @ str_nat xport @ '']/iolinkdevice/'' @ field @ ''/getdata''"

definition getportsensorlocalname :: "master \<Rightarrow> nat \<Rightarrow> string list \<Rightarrow> error + (pyval \<times> string list)" where
  "getportsensorlocalname w xport lg = httpget w (port_path xport ''applicationspecifictag'') lg"

definition getportsensordeviceid :: "master \<Rightarrow> nat \<Rightarrow> string list \<Rightarrow> error + (pyval \<times> string list)" where
  "getportsensordeviceid w xport lg = httpget w (port_path xport ''deviceid'') lg"

definition getportsensorprocessdata :: "master \<Rightarrow> nat \<Rightarrow> string list \<Rightarrow> error + (pyval \<times> string list)" where
  "getportsensorprocessdata w xport lg = httpget w (port_path xport ''pdin'') lg"

definition getportsensorname :: "master \<Rightarrow> nat \<Rightarrow> string list \<Rightarrow> error + (pyval \<times> string list)" where
  "getportsensorname w xport lg = httpget w (port_path xport ''productname'') lg"

definition getportsensorserial :: "master \<Rightarrow> nat \<Rightarrow> string list \<Rightarrow> error + (pyval \<times> string list)" where
  "getportsensorserial w xport lg = httpget w (port_path xport ''serial'') lg"

definition getportdevicestatus :: "master \<Rightarrow> nat \<Rightarrow> string list \<Rightarrow> error + (pyval \<times> string list)" where
  "getportdevicestatus w xport lg = httpget w (port_path xport ''status'') lg"

definition getportsensorvendorid :: "master \<Rightarrow> nat \<Rightarrow> string list \<Rightarrow> error + (pyval \<times> string list)" where
  "getportsensorvendorid w xport lg = httpget w (port_path xport ''vendorid'') lg"

definition getipaddress :: "master \<Rightarrow> string list \<Rightarrow> error + (pyval \<times> string list)" where
  "getipaddress w lg = httpget w ''/iotsetup/network/ipaddress/getdata'' lg"

definition getmilliamperes :: "master \<Rightarrow> string list \<Rightarrow> error + (pyval \<times> string list)" where
  "getmilliamperes w lg = httpget w ''/processdatamaster/current/getdata'' lg"

definition getsupervisionstatus :: "master \<Rightarrow> string list \<Rightarrow> error + (pyval \<times> string list)" where
  "getsupervisionstatus w lg = httpget w ''/processdatamaster/supervisionstatus/getdata'' lg"

definition gettemperature :: "master \<Rightarrow> string list \<Rightarrow> error + (pyval \<times> string list)" where
  "gettemperature w lg = httpget w ''/processdatamaster/temperature/getdata'' lg"

definition getvolts :: "master \<Rightarrow> string list \<Rightarrow> error + (pyval \<times> string list)" where
  "getvolts w lg = httpget w ''/processdatamaster/current/getdata'' lg"

text \<open>
  \<^verbatim>\<open>getportcount\<close>: the number of \<^verbatim>\<open>subs\<close> of the first entry of the tree named
  \<^verbatim>\<open>iolinkmaster\<close>, 0 without such an entry. \<^verbatim>\<open>gettree\<close> returns the body or raises, so the
  branch for \<^verbatim>\<open>capabilities is None\<close> is never taken and the result is a number.
\<close>

definition getportcount :: "master \<Rightarrow> string list \<Rightarrow> error + (nat \<times> string list)" where
  "getportcount w lg =
     ebind (gettree w lg) (\<lambda>(capabilities, lg1).
       case capabilities of
         NotJson \<Rightarrow> Inl ValueError
       | Envelope v \<Rightarrow> Inl KeyError
       | Tree itemsubs \<Rightarrow>
           (case find (\<lambda>itemsub. fst itemsub = ''iolinkmaster'') itemsubs of
              Some itemsub \<Rightarrow> Inr (snd itemsub, lg1)
            | None \<Rightarrow> Inr (0, lg1)))"

section \<open>Building the sensor list\<close>

text \<open>\<^verbatim>\<open>list.insert(i, x)\<close> for \<open>i \<ge> 0\<close>: at the end when \<open>i\<close> is beyond it.\<close>

definition py_insert :: "nat \<Rightarrow> 'a \<Rightarrow> 'a list \<Rightarrow> 'a list" where
  "py_insert i x xs = take i xs @ [x] @ drop i xs"

text \<open>
  The body of the loop of \<^verbatim>\<open>getsensorsondevices\<close> for one port; the arguments of the
  initializer are evaluated from left to right.
\<close>

definition sensor_on_port :: "master \<Rightarrow> nat \<Rightarrow> string list \<Rightarrow> error + (IOLinkSensorInformation \<times> string list)" where
  "sensor_on_port w portnumber lg =
     ebind (getportdevicestatus w portnumber lg) (\<lambda>(status, lg0).
       if status = PInt 2 then
         ebind (getportsensordeviceid w portnumber lg0) (\<lambda>(typ, lg1).
         ebind (getportsensorlocalname w portnumber lg1) (\<lambda>(nm, lg2).
         ebind (getportsensorserial w portnumber lg2) (\<lambda>(ser, lg3).
         ebind (getportsensorvendorid w portnumber lg3) (\<lambda>(vid, lg4).
         ebind (getportsensorname w portnumber lg4) (\<lambda>(lnm, lg5).
         ebind (getportsensorprocessdata w portnumber lg5) (\<lambda>(pd, lg6).
         Inr (new_sensor portnumber typ nm ser vid lnm pd, lg6)))))))
       else
         Inr (new_sensor portnumber (PStr []) (PStr []) (PStr []) (PStr []) (PStr []) PNone, lg0))"

fun sensors_loop ::
  "master \<Rightarrow> nat list \<Rightarrow> IOLinkSensorInformation list \<Rightarrow> string list
     \<Rightarrow> error + (IOLinkSensorInformation list \<times> string list)" where
  "sensors_loop w [] portefeuille lg = Inr (portefeuille, lg)"
| "sensors_loop w (portnumber # rest) portefeuille lg =
     ebind (sensor_on_port w portnumber lg) (\<lambda>(sensex, lg1).
       sensors_loop w rest (py_insert portnumber sensex portefeuille) lg1)"

definition getsensorsondevices ::
  "master \<Rightarrow> string list \<Rightarrow> error + (IOLinkSensorInformation list \<times> string list)" where
  "getsensorsondevices w lg =
     ebind (getportcount w lg) (\<lambda>(n, lg1). sensors_loop w [1 ..< n + 1] [] lg1)"

section \<open>The poll loop\<close>

record IOLinkMasterInformation =
  numports :: nat
  ipaddress :: pyval
  temperature :: pyval
  milliamperes :: pyval
  voltage :: pyval
  supervisionstatus :: pyval
  productcode :: pyval
  productserial :: pyval
  family :: pyval
  vendor :: pyval

text \<open>
  The events handed to \<^verbatim>\<open>sendtosaas\<close>, by the name in their payload. The message text is
  not built; an emission keeps the event type, the name and the port number that the
  message prints. The storage client and the audit program are outside the model: a
  call to them is recorded and does not fail.
\<close>

datatype event =
    SENSORNOTFOUND | NEWSENSORFOUND | SENSORTYPECHANGED | SENSORSERIALCHANGED
  | ACCELERATION | VELOCITY | TEMPERATUREMIN | TEMPERATUREMAX

datatype emission =
    IolmPoint IOLinkMasterInformation
  | SensorPoint datapoint
  | Saas string event nat

text \<open>
  The properties, read through \<^verbatim>\<open>float(prr[key])\<close> only: a key is missing (\<^verbatim>\<open>KeyError\<close>), or
  its text is a number, or \<^verbatim>\<open>float\<close> rejects it (\<^verbatim>\<open>ValueError\<close>).
\<close>

datatype property = Number real | NotANumber

type_synonym properties = "string \<Rightarrow> property option"

definition float_prop :: "properties \<Rightarrow> string \<Rightarrow> error + real" where
  "float_prop prr k =
     (case prr k of
        None \<Rightarrow> Inl KeyError
      | Some NotANumber \<Rightarrow> Inl ValueError
      | Some (Number x) \<Rightarrow> Inr x)"

text \<open>\<^verbatim>\<open>xs[i]\<close> for \<open>i \<ge> 0\<close>.\<close>

definition item :: "'a list \<Rightarrow> nat \<Rightarrow> error + 'a" where
  "item xs i = (if i < length xs then Inr (xs ! i) else Inl IndexError)"

text \<open>
  The comparison with the saved list for one index (lines 266 to 300). Both lists hold
  sensor objects only, \<^verbatim>\<open>getsensorsondevices\<close> never stores \<^verbatim>\<open>None\<close> in a list, so the two
  tests \<^verbatim>\<open>is None\<close> are false and what remains is the chain of the two \<^verbatim>\<open>elif\<close>. Each
  message appends the saved serial to a string.
\<close>

definition compare_port ::
  "IOLinkSensorInformation list option \<Rightarrow> IOLinkSensorInformation list \<Rightarrow> nat
     \<Rightarrow> error + emission list" where
  "compare_port savesensors sensors portnumber =
     (case savesensors of
        None \<Rightarrow> Inr []
      | Some saved \<Rightarrow>
          ebind (item sensors portnumber) (\<lambda>cur.
          ebind (item saved portnumber) (\<lambda>old.
            if sensortype old \<noteq> sensortype cur then
              ebind (str_operand (sensorserial old)) (\<lambda>_.
                Inr [Saas ''CONFIGURATION'' SENSORTYPECHANGED (sensorport old)])
            else if sensorserial old \<noteq> sensorserial cur then
              ebind (str_operand (sensorserial old)) (\<lambda>_.
                Inr [Saas ''CONFIGURATION'' SENSORSERIALCHANGED (sensorport old)])
            else Inr [])))"

text \<open>
  The threshold check for one index (lines 304 to 408). \<open>Break\<close> is the \<^verbatim>\<open>break\<close> of the
  handlers of \<^verbatim>\<open>KeyError\<close>: it leaves the loop over the ports. A point always has its
  \<^verbatim>\<open>fields\<close>, so the first handler is never entered. The message of an alert appends
  the sensor's two names to a string.
\<close>

datatype flow = Next | Break

definition alert ::
  "IOLinkSensorInformation \<Rightarrow> event \<Rightarrow> error + emission list" where
  "alert cur ev =
     ebind (str_operand (sensorname cur)) (\<lambda>_.
     ebind (str_operand (sensorlocalname cur)) (\<lambda>_.
       Inr [Saas ''SENSOR'' ev (sensorport cur)]))"

text \<open>
  \<^verbatim>\<open>try: x = ... except KeyError: ...\<close> in front of the rest of a block: the handler
  replaces the block on \<^verbatim>\<open>KeyError\<close>, another error is not caught.
\<close>

definition except_KeyError :: "error + 'a \<Rightarrow> error + 'b \<Rightarrow> ('a \<Rightarrow> error + 'b) \<Rightarrow> error + 'b" where
  "except_KeyError r handler rest =
     (case r of
        Inl e \<Rightarrow> if e = KeyError then handler else Inl e
      | Inr x \<Rightarrow> rest x)"

text \<open>\<^verbatim>\<open>jsondict[key]\<close>.\<close>

definition subscript :: "(string \<times> 'a) list \<Rightarrow> string \<Rightarrow> error + 'a" where
  "subscript d k = (case map_of d k of None \<Rightarrow> Inl KeyError | Some v \<Rightarrow> Inr v)"

definition check_vibration ::
  "properties \<Rightarrow> IOLinkSensorInformation \<Rightarrow> (string \<times> pynum) list \<Rightarrow> string
     \<Rightarrow> error + (flow \<times> emission list)" where
  "check_vibration prr cur jsondict srchroot =
     except_KeyError (float_prop prr (srchroot @ ''@'' @ ''acceleration'')) (Inr (Break, []))
       (\<lambda>accelthreshold.
     except_KeyError (float_prop prr (srchroot @ ''@'' @ ''velocity'')) (Inr (Break, []))
       (\<lambda>velthreshold.
     except_KeyError
       (ebind (subscript jsondict ''acceleration'') (\<lambda>acc.
        ebind (subscript jsondict ''velocity'') (\<lambda>vel. Inr (to_float acc, to_float vel))))
       (Inr (Break, []))
       (\<lambda>(acctocheck, veltocheck).
          ebind (if acctocheck > accelthreshold then alert cur ACCELERATION else Inr []) (\<lambda>a.
          ebind (if veltocheck > velthreshold then alert cur VELOCITY else Inr []) (\<lambda>b.
            Inr (Next, a @ b))))))"

definition check_temperature ::
  "properties \<Rightarrow> IOLinkSensorInformation \<Rightarrow> (string \<times> pynum) list \<Rightarrow> string
     \<Rightarrow> error + (flow \<times> emission list)" where
  "check_temperature prr cur jsondict srchroot =
     ebind (except_KeyError (float_prop prr (srchroot @ ''@'' @ ''temperaturemax''))
              (Inr (9999999 / 100)) Inr) (\<lambda>tmaxthreshold.
     ebind (except_KeyError (float_prop prr (srchroot @ ''@'' @ ''temperaturemin''))
              (Inr (- 273)) Inr) (\<lambda>tminthreshold.
     except_KeyError (ebind (subscript jsondict ''temperature'') (\<lambda>t. Inr (to_float t)))
       (Inr (Break, []))
       (\<lambda>temptocheck.
          if temptocheck < tminthreshold then
            ebind (alert cur TEMPERATUREMIN) (\<lambda>a. Inr (Next, a))
          else if temptocheck > tmaxthreshold then
            ebind (alert cur TEMPERATUREMAX) (\<lambda>a. Inr (Next, a))
          else Inr (Next, []))))"

definition check_thresholds ::
  "properties \<Rightarrow> IOLinkSensorInformation list \<Rightarrow> nat \<Rightarrow> error + (flow \<times> emission list)" where
  "check_thresholds prr sensors portnumber =
     ebind (item sensors portnumber) (\<lambda>cur.
       case json cur of
         NoPoints \<Rightarrow> Inr (Next, [])
       | Unset \<Rightarrow> Inl IndexError
       | Points p \<Rightarrow>
           ebind (str_operand (sensorserial cur)) (\<lambda>srchserial.
             let srchroot = py_str (sensorvendorid cur) @ ''@'' @ srchserial in
             if sensorvendorid cur = PInt 310 then
               if sensortype cur = PInt 416 \<or> sensortype cur = PInt 417 then
                 check_vibration prr cur (fieldvals p) srchroot
               else if sensortype cur = PInt 446 then
                 check_temperature prr cur (fieldvals p) srchroot
               else Inr (Next, [])
             else Inr (Next, [])))"

text \<open>
  The loop \<^verbatim>\<open>for portnumber in range(0, self.getportcount(ipx) - 1)\<close> over the indices it is
  given: the comparison, then the thresholds, then the next index unless a \<^verbatim>\<open>break\<close>.
\<close>

fun port_loop ::
  "properties \<Rightarrow> IOLinkSensorInformation list option \<Rightarrow> IOLinkSensorInformation list
     \<Rightarrow> nat list \<Rightarrow> error + emission list" where
  "port_loop prr savesensors sensors [] = Inr []"
| "port_loop prr savesensors sensors (portnumber # rest) =
     ebind (compare_port savesensors sensors portnumber) (\<lambda>changes.
     ebind (check_thresholds prr sensors portnumber) (\<lambda>(fl, alerts).
       case fl of
         Break \<Rightarrow> Inr (changes @ alerts)
       | Next \<Rightarrow>
           ebind (port_loop prr savesensors sensors rest) (\<lambda>more.
             Inr (changes @ alerts @ more))))"

text \<open>
  The state of \<^verbatim>\<open>getreadings\<close> between two cycles. The lists of sensors are objects in a
  store: \<open>sensorlist\<close> and \<open>savesensorlist\<close> are references, and after
  \<^verbatim>\<open>savesensorlist = sensorlist\<close> both name the same list until a full poll binds
  \<open>sensorlist\<close> to a new one. \<open>requests\<close> is the conversation with the master and
  \<open>outputs\<close> what was handed to the storage client and to \<^verbatim>\<open>sendtosaas\<close>, in order.
\<close>

record state =
  requests :: "string list"
  store :: "nat \<Rightarrow> IOLinkSensorInformation list"
  fresh :: nat
  sensorlist :: nat
  savesensorlist :: "nat option"
  iolminfo :: IOLinkMasterInformation
  fullinfo :: bool
  itercount :: int
  outputs :: "emission list"

text \<open>
  The state before the loop, with the port count just read: no saved list, an empty
  sensor list, \<open>fullinfo\<close> set, the counter at 0, and the master record of the
  initializer (its address is overwritten by the first full poll).
\<close>

definition start :: "nat \<Rightarrow> string list \<Rightarrow> state" where
  "start n lg =
     \<lparr> requests = lg, store = (\<lambda>r. []), fresh = 1, sensorlist = 0, savesensorlist = None,
       iolminfo = \<lparr> numports = n, ipaddress = PStr [], temperature = PInt (- 273),
                    milliamperes = PInt (- 1), voltage = PInt (- 1),
                    supervisionstatus = PInt (- 1), productcode = PStr [],
                    productserial = PStr [], family = PStr [], vendor = PStr [] \<rparr>,
       fullinfo = True, itercount = 0, outputs = [] \<rparr>"

text \<open>The branch \<^verbatim>\<open>if fullinfo\<close> (lines 202 to 239).\<close>

definition full_poll :: "master \<Rightarrow> state \<Rightarrow> error + state" where
  "full_poll w st =
     ebind (getipaddress w (requests st)) (\<lambda>(v1, lg1).
     ebind (getproductserial w lg1) (\<lambda>(v2, lg2).
     ebind (getvendor w lg2) (\<lambda>(v3, lg3).
     ebind (getdevicefamily w lg3) (\<lambda>(v4, lg4).
     ebind (gettemperature w lg4) (\<lambda>(v5, lg5).
     ebind (getsupervisionstatus w lg5) (\<lambda>(v6, lg6).
     ebind (getmilliamperes w lg6) (\<lambda>(v7, lg7).
     ebind (getproductcode w lg7) (\<lambda>(v8, lg8).
     ebind (getvolts w lg8) (\<lambda>(v9, lg9).
       let info = (iolminfo st)\<lparr> ipaddress := v1, productserial := v2, vendor := v3,
                     family := v4, temperature := v5, supervisionstatus := v6,
                     milliamperes := v7, productcode := v8, voltage := v9 \<rparr>
       in ebind (getsensorsondevices w lg9) (\<lambda>(sensors, lg10).
            Inr (st\<lparr> requests := lg10, iolminfo := info,
                     outputs := outputs st @ [IolmPoint info],
                     store := (store st)(fresh st := sensors),
                     sensorlist := fresh st, fresh := fresh st + 1,
                     fullinfo := False \<rparr>)))))))))))"

text \<open>The loop of the branch \<^verbatim>\<open>else\<close> over the sensors (lines 246 to 250).\<close>

fun refresh_loop ::
  "master \<Rightarrow> IOLinkSensorInformation list \<Rightarrow> string list
     \<Rightarrow> error + (IOLinkSensorInformation list \<times> string list)" where
  "refresh_loop w [] lg = Inr ([], lg)"
| "refresh_loop w (sensor # rest) lg =
     ebind (getportdevicestatus w (sensorport sensor) lg) (\<lambda>(status, lg1).
     ebind (if status = PInt 2
            then getportsensorprocessdata w (sensorport sensor) lg1
            else Inr (PNone, lg1)) (\<lambda>(pd, lg2).
     ebind (refresh_loop w rest lg2) (\<lambda>(rest', lg3).
       Inr (sensor\<lparr> sensorprocessdata := pd \<rparr> # rest', lg3))))"

definition partial_poll :: "int \<Rightarrow> master \<Rightarrow> state \<Rightarrow> error + state" where
  "partial_poll iterations w st =
     (let st1 = (if itercount st > iterations
                 then st\<lparr> itercount := 0, fullinfo := True \<rparr> else st)
      in ebind (refresh_loop w (store st1 (sensorlist st1)) (requests st1)) (\<lambda>(sensors, lg).
           Inr (st1\<lparr> requests := lg,
                     store := (store st1)(sensorlist st1 := sensors) \<rparr>)))"

text \<open>The loop that converts and stores the sensor data (lines 252 to 263).\<close>

definition json_of :: "datapoint option \<Rightarrow> jsonattr" where
  "json_of r = (case r of None \<Rightarrow> NoPoints | Some p \<Rightarrow> Points p)"

fun convert_loop ::
  "string \<Rightarrow> IOLinkSensorInformation list \<Rightarrow> error + (IOLinkSensorInformation list \<times> emission list)" where
  "convert_loop ipx [] = Inr ([], [])"
| "convert_loop ipx (sensor # rest) =
     ebind (datatojson ipx sensor) (\<lambda>r.
     ebind (convert_loop ipx rest) (\<lambda>(rest', written).
       Inr (sensor\<lparr> json := json_of r \<rparr> # rest',
            (case r of None \<Rightarrow> [] | Some p \<Rightarrow> [SensorPoint p]) @ written)))"

text \<open>One pass through the body of \<^verbatim>\<open>while True\<close> (lines 200 to 411), the sleep left out.\<close>

definition cycle :: "int \<Rightarrow> string \<Rightarrow> properties \<Rightarrow> master \<Rightarrow> state \<Rightarrow> error + state" where
  "cycle iterations ipx prr w st0 =
     (let st = st0\<lparr> itercount := itercount st0 + 1 \<rparr> in
      ebind (if fullinfo st then full_poll w st else partial_poll iterations w st) (\<lambda>st1.
      ebind (convert_loop ipx (store st1 (sensorlist st1))) (\<lambda>(sensors, written).
        let st2 = st1\<lparr> store := (store st1)(sensorlist st1 := sensors),
                        outputs := outputs st1 @ written \<rparr>
        in ebind (getportcount w (requests st2)) (\<lambda>(n, lg).
           ebind (port_loop prr (map_option (store st2) (savesensorlist st2))
                    (store st2 (sensorlist st2)) [0 ..< n - 1]) (\<lambda>events.
             Inr (st2\<lparr> requests := lg, outputs := outputs st2 @ events,
                      savesensorlist := Some (sensorlist st2) \<rparr>))))))"

text \<open>
  \<^verbatim>\<open>while True\<close>, for a number of cycles: the result is the error that ended the loop or
  the state after that many cycles.
\<close>

fun getreadings_loop ::
  "int \<Rightarrow> string \<Rightarrow> properties \<Rightarrow> master \<Rightarrow> nat \<Rightarrow> state \<Rightarrow> error + state" where
  "getreadings_loop iterations ipx prr w 0 st = Inr st"
| "getreadings_loop iterations ipx prr w (Suc k) st =
     ebind (cycle iterations ipx prr w st) (getreadings_loop iterations ipx prr w k)"

text \<open>
  \<^verbatim>\<open>getreadings\<close> from the reading of the port count on, with the storage client
  connected. \<^verbatim>\<open>getportcount\<close> gives a number or raises, so the loop is entered.
\<close>

definition getreadings ::
  "int \<Rightarrow> string \<Rightarrow> properties \<Rightarrow> master \<Rightarrow> nat \<Rightarrow> error + state" where
  "getreadings iterations ipx prr w k =
     ebind (getportcount w []) (\<lambda>(n, lg). getreadings_loop iterations ipx prr w k (start n lg))"

section \<open>The specification's reading of the process data\<close>




text \<open>The record that \<^verbatim>\<open>getsensorsondevices\<close> stores for a port without a sensor.\<close>

definition empty_sensor :: "nat \<Rightarrow> IOLinkSensorInformation" where
  "empty_sensor p = new_sensor p (PStr []) (PStr []) (PStr []) (PStr []) (PStr []) PNone"

section \<open>Masters and properties of the examples\<close>

text \<open>
  A master that answers from a table of paths, with status 200 for a path of the table
  and 404 for any other, at every request alike; a master that changes its answers from
  a given request on; and a master that, at one request, behaves in a given way instead.
\<close>

definition table_master :: "(string \<times> content) list \<Rightarrow> master" where
  "table_master tbl k path =
     (case map_of tbl path of Some body \<Rightarrow> Response True body | None \<Rightarrow> Response False NotJson)"

definition switch_master :: "nat \<Rightarrow> master \<Rightarrow> master \<Rightarrow> master" where
  "switch_master n a b k = (if k < n then a k else b k)"

definition unanswered_at :: "nat \<Rightarrow> response \<Rightarrow> master \<Rightarrow> master" where
  "unanswered_at j r w k path = (if k = j then r else w k path)"

text \<open>
  The tables: the tree with a number of ports, the entries of a port with a sensor of
  vendor 310 in operation, the entry of a port without one, and the fields of the master.
\<close>

definition tree :: "nat \<Rightarrow> (string \<times> content) list" where
  "tree n = [(''/gettree'', Tree [(''deviceinfo'', 9), (''iolinkmaster'', n)])]"

definition connected :: "nat \<Rightarrow> int \<Rightarrow> string \<Rightarrow> string \<Rightarrow> (string \<times> content) list" where
  "connected p typ ser pd =
     [(port_path p ''status'', Envelope (PInt 2)),
      (port_path p ''deviceid'', Envelope (PInt typ)),
      (port_path p ''applicationspecifictag'', Envelope (PStr ''line 1'')),
      (port_path p ''serial'', Envelope (PStr ser)),
      (port_path p ''vendorid'', Envelope (PInt 310)),
      (port_path p ''productname'', Envelope (PStr ''ifm'')),
      (port_path p ''pdin'', Envelope (PStr pd))]"

definition unconnected :: "nat \<Rightarrow> (string \<times> content) list" where
  "unconnected p = [(port_path p ''status'', Envelope (PInt 0))]"

definition health_table :: "(string \<times> content) list" where
  "health_table =
     [(''/gettree'', Tree [(''deviceinfo'', 9), (''iolinkmaster'', 0)]),
      (''/iotsetup/network/ipaddress/getdata'', Envelope (PStr ''10.0.0.7'')),
      (''/deviceinfo/serialnumber/getdata'', Envelope (PStr ''000012345'')),
      (''/deviceinfo/vendor/getdata'', Envelope (PStr ''ifm electronic'')),
      (''/deviceinfo/devicefamily/getdata'', Envelope (PStr ''IO-Link master'')),
      (''/deviceinfo/productcode/getdata'', Envelope (PStr ''AL1350'')),
      (''/processdatamaster/temperature/getdata'', Envelope (PInt 41)),
      (''/processdatamaster/supervisionstatus/getdata'', Envelope (PInt 0)),
      (''/processdatamaster/current/getdata'', Envelope (PInt 350)),
      (''/processdatamaster/voltage/getdata'', Envelope (PInt 24))]"

definition three_ports :: master where
  "three_ports = table_master (tree 3 @ connected 1 416 ''V1'' ''04B0012C0A30''
       @ connected 2 446 ''T1'' ''0258'' @ unconnected 3 @ health_table)"

definition two_ports :: master where
  "two_ports = table_master (tree 2 @ unconnected 1 @ connected 2 446 ''T1'' ''0258'' @ health_table)"

definition two_ports_swapped :: master where
  "two_ports_swapped = table_master (tree 2 @ connected 1 446 ''T1'' ''0258'' @ unconnected 2 @ health_table)"

definition two_ports_later :: master where
  "two_ports_later = table_master (tree 2 @ connected 1 417 ''S1'' ''04B0012C0A30''
       @ connected 2 446 ''T1'' ''0258'' @ health_table)"

definition no_ports :: master where
  "no_ports = table_master health_table"

text \<open>The threshold properties of the examples, and the events among the emissions.\<close>

definition no_limits :: properties where
  "no_limits k = None"

definition temperature_limits :: properties where
  "temperature_limits k = (if k = ''310@T1@temperaturemax'' then Some (Number 50) else None)"

definition limits_without_acceleration :: properties where
  "limits_without_acceleration k =
     (if k = ''310@V1@velocity'' then Some (Number 1)
      else if k = ''310@T1@temperaturemax'' then Some (Number 50)
      else None)"

definition limits_with_acceleration :: properties where
  "limits_with_acceleration k =
     (if k = ''310@V1@acceleration'' then Some (Number 20)
      else limits_without_acceleration k)"

definition saas_events :: "emission list \<Rightarrow> emission list" where
  "saas_events outs = filter (\<lambda>e. case e of Saas t ev p \<Rightarrow> True | _ \<Rightarrow> False) outs"

definition late_sensor :: master where
  "late_sensor = switch_master 20 two_ports two_ports_later"

section \<open>Notions of the statements\<close>

text \<open>
  The port an emission is about: the tag \<^verbatim>\<open>sensorport\<close> of a sensor point, the port number
  of an event; a point of the master is about no port.
\<close>

definition emission_port :: "emission \<Rightarrow> nat option" where
  "emission_port e =
     (case e of
        IolmPoint info \<Rightarrow> None
      | SensorPoint p \<Rightarrow>
          (case map_of (tags p) ''sensorport'' of Some (PInt n) \<Rightarrow> Some (nat n) | _ \<Rightarrow> None)
      | Saas t ev port \<Rightarrow> Some port)"

text \<open>
  Two sensor records that differ at most in the process data and in \<^verbatim>\<open>json\<close>; and a list
  whose entry at index \<open>j\<close> has the port number \<open>j + 1\<close>.
\<close>

definition same_identity :: "IOLinkSensorInformation \<Rightarrow> IOLinkSensorInformation \<Rightarrow> bool" where
  "same_identity a b =
     (sensorport b = sensorport a \<and> sensortype b = sensortype a \<and>
      sensorname b = sensorname a \<and> sensorserial b = sensorserial a \<and>
      sensorvendorid b = sensorvendorid a \<and> sensordata b = sensordata a \<and>
      sensorlocalname b = sensorlocalname a)"

definition ports_aligned :: "IOLinkSensorInformation list \<Rightarrow> bool" where
  "ports_aligned xs = (\<forall>j<length xs. sensorport (xs ! j) = j + 1)"

text \<open>
  \<^verbatim>\<open>requests.get\<close> gave no response: it raised. After the two exceptions that \<^verbatim>\<open>httpget\<close>
  catches \<^verbatim>\<open>httpget\<close> raises \<^verbatim>\<open>ConnectionError\<close>; another exception of the library, a read
  timeout for one, passes through \<^verbatim>\<open>httpget\<close>. A computation \<open>f\<close> that starts with \<open>k\<close>
  requests made and whose result \<open>x\<close> has \<open>len x\<close> requests made \<open>needs_answers\<close> when
  one request without response, anywhere among those it makes, turns the result into
  the error raised, and elsewhere leaves it as it is.
\<close>

definition no_response :: "response \<Rightarrow> bool" where
  "no_response r =
     (r = RequestsConnectTimeout \<or> r = RequestsConnectionError \<or> r = RequestsOther)"

definition raised :: "response \<Rightarrow> error" where
  "raised r = (if r = RequestsOther then RequestException else ConnectionError)"

definition needs_answers :: "(master \<Rightarrow> error + 'a) \<Rightarrow> nat \<Rightarrow> ('a \<Rightarrow> nat) \<Rightarrow> bool" where
  "needs_answers f k len =
     (\<forall>w x i r. no_response r \<longrightarrow> f w = Inr x \<longrightarrow>
        k \<le> len x \<and>
        f (unanswered_at i r w) = (if k \<le> i \<and> i < len x then Inl (raised r) else Inr x))"

section \<open>Properties of the primitives\<close>

lemma ebind_Inl [simp]: "ebind (Inl e) f = Inl e"
  by (simp add: ebind_def)

lemma ebind_Inr [simp]: "ebind (Inr x) f = f x"
  by (simp add: ebind_def)


lemma ebind_eq_Inr: "ebind m f = Inr y \<longleftrightarrow> (\<exists>x. m = Inr x \<and> f x = Inr y)"
  by (cases m) auto


























section \<open>The codec\<close>






section \<open>The master's health fields\<close>

text \<open>
  C9. The master of the example answers 350 at the path of the current and 24 at the path
  of the voltage. After the full poll the record holds 350 as current and 350 as voltage:
  the eighth and the tenth request of the conversation are both for the current, and the
  path of the voltage is never requested.
\<close>

theorem voltage_is_the_current_reading:
  "no_ports 9 ''/processdatamaster/voltage/getdata'' = Response True (Envelope (PInt 24))
   \<and> map_sum id (\<lambda>st. (milliamperes (iolminfo st), voltage (iolminfo st),
                       requests st ! 7, requests st ! 9,
                       ''/processdatamaster/voltage/getdata'' \<in> set (requests st)))
        (full_poll no_ports (start 0 [''/gettree'']))
      = Inr (PInt 350, PInt 350, ''/processdatamaster/current/getdata'',
             ''/processdatamaster/current/getdata'', False)"
  by code_simp

section \<open>The sensor list\<close>

lemma httpget_Inr:
  "httpget w path lg = Inr (v, lg') \<longleftrightarrow>
     w (length lg) path = Response True (Envelope v) \<and> lg' = lg @ [path]"
  by (auto simp: httpget_def split: response.splits content.splits)

lemma sensor_on_port_port:
  "sensor_on_port w p lg = Inr (x, lg') \<Longrightarrow> sensorport x = p"
  by (auto simp: sensor_on_port_def ebind_eq_Inr new_sensor_def split: if_splits)

lemma sensor_on_port_empty:
  assumes "sensor_on_port w p lg = Inr (x, lg')"
    and "\<forall>k. \<exists>v. w k (port_path p ''status'') = Response True (Envelope v) \<and> v \<noteq> PInt 2"
  shows "x = empty_sensor p"
proof -
  from assms(2) obtain v where v: "w (length lg) (port_path p ''status'') = Response True (Envelope v)"
      "v \<noteq> PInt 2" by blast
  then have "getportdevicestatus w p lg = Inr (v, lg @ [port_path p ''status''])"
    by (simp add: getportdevicestatus_def httpget_Inr)
  with assms(1) v(2) show ?thesis by (simp add: sensor_on_port_def empty_sensor_def)
qed

lemma py_insert_end: "length xs = i \<Longrightarrow> py_insert i x xs = xs @ [x]"
  by (simp add: py_insert_def)

lemma sensors_loop_inv:
  assumes "sensors_loop w [Suc m ..< Suc n] pf lg = Inr (xs, lg')" "length pf = m" "m \<le> n"
  shows "length xs = n \<and> take m xs = pf \<and>
     (\<forall>i. m \<le> i \<and> i < n \<longrightarrow> sensorport (xs ! i) = Suc i \<and>
        ((\<forall>k. \<exists>v. w k (port_path (Suc i) ''status'') = Response True (Envelope v) \<and> v \<noteq> PInt 2)
            \<longrightarrow> xs ! i = empty_sensor (Suc i)))"
  using assms
proof (induction "n - m" arbitrary: m pf lg)
  case 0
  then have "m = n" by simp
  with 0 show ?case by auto
next
  case (Suc d)
  then have lt: "m < n" by simp
  then have u: "[Suc m ..< Suc n] = Suc m # [Suc (Suc m) ..< Suc n]" by (simp add: upt_conv_Cons)
  from Suc.prems(1) obtain x lg1 where x: "sensor_on_port w (Suc m) lg = Inr (x, lg1)"
    and r: "sensors_loop w [Suc (Suc m) ..< Suc n] (py_insert (Suc m) x pf) lg1 = Inr (xs, lg')"
    unfolding u by (auto simp: ebind_eq_Inr)
  have pi: "py_insert (Suc m) x pf = pf @ [x]" using Suc.prems(2) by (simp add: py_insert_def)
  have ih: "length xs = n \<and> take (Suc m) xs = pf @ [x] \<and>
     (\<forall>i. Suc m \<le> i \<and> i < n \<longrightarrow> sensorport (xs ! i) = Suc i \<and>
        ((\<forall>k. \<exists>v. w k (port_path (Suc i) ''status'') = Response True (Envelope v) \<and> v \<noteq> PInt 2)
            \<longrightarrow> xs ! i = empty_sensor (Suc i)))"
    using Suc.hyps(1)[of "Suc m" "pf @ [x]" lg1] Suc.hyps(2) r lt Suc.prems(2) by (simp add: pi)
  then have len: "length xs = n" and tk: "take (Suc m) xs = pf @ [x]" by auto
  from tk have "take m (take (Suc m) xs) = take m (pf @ [x])" by simp
  then have tm: "take m xs = pf" using Suc.prems(2) by (simp add: min_def)
  from tk have "take (Suc m) xs ! m = (pf @ [x]) ! m" by simp
  then have xm: "xs ! m = x" using Suc.prems(2) by (auto simp: nth_append)
  show ?case
  proof (intro conjI allI impI)
    show "length xs = n" by (rule len)
    show "take m xs = pf" by (rule tm)
  next
    fix i assume i: "m \<le> i \<and> i < n"
    show "sensorport (xs ! i) = Suc i"
    proof (cases "i = m")
      case True with xm sensor_on_port_port[OF x] show ?thesis by simp
    next
      case False with i ih show ?thesis by auto
    qed
  next
    fix i assume i: "m \<le> i \<and> i < n"
      and e: "\<forall>k. \<exists>v. w k (port_path (Suc i) ''status'') = Response True (Envelope v) \<and> v \<noteq> PInt 2"
    show "xs ! i = empty_sensor (Suc i)"
    proof (cases "i = m")
      case True with xm sensor_on_port_empty[OF x] e show ?thesis by simp
    next
      case False with i ih e show ?thesis by auto
    qed
  qed
qed



section \<open>The schedule of full and partial polls\<close>

lemma ebind_assoc: "ebind (ebind m f) g = ebind m (\<lambda>x. ebind (f x) g)"
  by (cases m) auto



lemma cycle_Inr:
  assumes "cycle K ipx prr w st0 = Inr st'"
  obtains st1 sensors written n lg events where
    "(if fullinfo st0 then full_poll w (st0\<lparr>itercount := itercount st0 + 1\<rparr>)
      else partial_poll K w (st0\<lparr>itercount := itercount st0 + 1\<rparr>)) = Inr st1"
    "convert_loop ipx (store st1 (sensorlist st1)) = Inr (sensors, written)"
    "getportcount w (requests st1) = Inr (n, lg)"
    "port_loop prr (map_option ((store st1)(sensorlist st1 := sensors)) (savesensorlist st1))
        sensors [0 ..< n - 1] = Inr events"
    "st' = st1\<lparr> store := (store st1)(sensorlist st1 := sensors),
                 outputs := outputs st1 @ written @ events,
                 requests := lg, savesensorlist := Some (sensorlist st1) \<rparr>"
proof -
  from assms obtain st1 where 1: "(if fullinfo st0 then full_poll w (st0\<lparr>itercount := itercount st0 + 1\<rparr>)
      else partial_poll K w (st0\<lparr>itercount := itercount st0 + 1\<rparr>)) = Inr st1"
    and r1: "ebind (convert_loop ipx (store st1 (sensorlist st1))) (\<lambda>(sensors, written).
        let st2 = st1\<lparr> store := (store st1)(sensorlist st1 := sensors),
                        outputs := outputs st1 @ written \<rparr>
        in ebind (getportcount w (requests st2)) (\<lambda>(n, lg).
           ebind (port_loop prr (map_option (store st2) (savesensorlist st2))
                    (store st2 (sensorlist st2)) [0 ..< n - 1]) (\<lambda>events.
             Inr (st2\<lparr> requests := lg, outputs := outputs st2 @ events,
                      savesensorlist := Some (sensorlist st2) \<rparr>)))) = Inr st'"
    unfolding cycle_def Let_def by (auto simp: ebind_eq_Inr)
  from r1 obtain sensors written n lg events where
    2: "convert_loop ipx (store st1 (sensorlist st1)) = Inr (sensors, written)"
    and 3: "getportcount w (requests st1) = Inr (n, lg)"
    and 4: "port_loop prr (map_option ((store st1)(sensorlist st1 := sensors)) (savesensorlist st1))
        sensors [0 ..< n - 1] = Inr events"
    and 5: "st' = st1\<lparr> store := (store st1)(sensorlist st1 := sensors),
                 outputs := outputs st1 @ written @ events,
                 requests := lg, savesensorlist := Some (sensorlist st1) \<rparr>"
    by (auto simp: ebind_eq_Inr Let_def)
  from 1 2 3 4 5 show ?thesis by (rule that)
qed


lemma loop_snoc:
  "getreadings_loop K ipx prr w (Suc n) st =
     ebind (getreadings_loop K ipx prr w n st) (cycle K ipx prr w)"
proof (induction n arbitrary: st)
  case 0
  show ?case by (cases "cycle K ipx prr w st") auto
next
  case (Suc n)
  have "getreadings_loop K ipx prr w (Suc (Suc n)) st =
      ebind (cycle K ipx prr w st) (getreadings_loop K ipx prr w (Suc n))" by simp
  also have "\<dots> = ebind (cycle K ipx prr w st)
      (\<lambda>s. ebind (getreadings_loop K ipx prr w n s) (cycle K ipx prr w))"
    by (cases "cycle K ipx prr w st") (simp_all add: Suc.IH del: getreadings_loop.simps)
  also have "\<dots> = ebind (getreadings_loop K ipx prr w (Suc n) st) (cycle K ipx prr w)"
    by (simp add: ebind_assoc)
  finally show ?case .
qed





section \<open>The loop over the ports\<close>

text \<open>
  C3. A master with two ports; at the first full poll port 1 has no sensor, from the
  second cycle on it has a sensor of type 417 with serial S1. With 5 iterations the
  seventh cycle is the next full poll. The only event of the seven cycles is
  \<^verbatim>\<open>SENSORTYPECHANGED\<close> for port 1, not \<^verbatim>\<open>NEWSENSORFOUND\<close>: the saved entry of port 1 is
  the empty-state record, which is not \<^verbatim>\<open>None\<close>, and its type \<^verbatim>\<open>''\<close> differs from 417.
\<close>

theorem added_sensor_is_reported_as_type_change:
  "map_sum id (\<lambda>st. saas_events (outputs st))
     (getreadings 5 ''10.0.0.7'' no_limits (switch_master 20 two_ports two_ports_later) 7)
     = Inr [Saas ''CONFIGURATION'' SENSORTYPECHANGED 1]
   \<and> compare_port (Some [empty_sensor 1])
        [new_sensor 1 (PInt 417) (PStr ''line 1'') (PStr ''S1'') (PInt 310) (PStr ''ifm'')
           (PStr ''04B0012C0A30'')] 0
     = Inr [Saas ''CONFIGURATION'' SENSORTYPECHANGED 1]"
  by code_simp

text \<open>
  C4. A master with two ports and a temperature sensor that reads 60.0 against a
  configured maximum of 50. With the sensor on port 2, the last port, two cycles raise
  no alert: the loop runs over \<^verbatim>\<open>range(0, 2 - 1)\<close>, the index 0 only. With the same sensor
  on port 1 each of the two cycles raises \<^verbatim>\<open>TEMPERATUREMAX\<close>.
\<close>

theorem last_port_is_never_checked:
  "map_sum id (\<lambda>st. saas_events (outputs st))
     (getreadings 5 ''10.0.0.7'' temperature_limits two_ports 2) = Inr []
   \<and> map_sum id (\<lambda>st. saas_events (outputs st))
     (getreadings 5 ''10.0.0.7'' temperature_limits two_ports_swapped 2)
     = Inr [Saas ''SENSOR'' TEMPERATUREMAX 1, Saas ''SENSOR'' TEMPERATUREMAX 1]"
  by code_simp

text \<open>
  C5. A master with three ports: a vibration sensor V1 on port 1 with velocity 3.0
  against a configured limit of 1, a temperature sensor T1 on port 2 with 60.0 against a
  configured maximum of 50. Without an entry for the acceleration of V1 the cycle raises
  no alert at all: the missing key leaves the loop over the ports. With that entry
  (a limit of 20, above the acceleration of 12.0) the same cycle raises both alerts.
\<close>

theorem missing_vibration_limit_ends_the_port_loop:
  "map_sum id (\<lambda>st. saas_events (outputs st))
       (getreadings 5 ''10.0.0.7'' limits_without_acceleration three_ports 1) = Inr []
   \<and> map_sum id (\<lambda>st. saas_events (outputs st))
       (getreadings 5 ''10.0.0.7'' limits_with_acceleration three_ports 1)
      = Inr [Saas ''SENSOR'' VELOCITY 1, Saas ''SENSOR'' TEMPERATUREMAX 2]"
  by code_simp

section \<open>Ports without a sensor during partial polls\<close>

lemma same_identity_refl: "same_identity a a"
  by (simp add: same_identity_def)

lemma same_identity_trans: "same_identity a b \<Longrightarrow> same_identity b c \<Longrightarrow> same_identity a c"
  by (simp add: same_identity_def)

lemma except_KeyError_Inr:
  "except_KeyError r h c = Inr y \<longleftrightarrow> (r = Inl KeyError \<and> h = Inr y) \<or> (\<exists>x. r = Inr x \<and> c x = Inr y)"
  by (cases r) (auto simp: except_KeyError_def)

lemma refresh_loop_identity:
  "refresh_loop w xs lg = Inr (ys, lg') \<Longrightarrow> list_all2 same_identity xs ys"
proof (induction xs arbitrary: ys lg)
  case Nil then show ?case by simp
next
  case (Cons s xs)
  then show ?case
    by (auto simp: ebind_eq_Inr same_identity_def split: if_splits)
qed

lemma datatojson_Some:
  "datatojson ipx s = Inr (Some p) \<Longrightarrow> sensorvendorid s = PInt 310 \<and> tags p = sensor_tags ipx s"
  by (auto simp: datatojson_def ebind_eq_Inr split: if_splits)

lemma datatojson_other_vendor:
  "sensorvendorid s \<noteq> PInt 310 \<Longrightarrow> datatojson ipx s = Inr None"
  by (simp add: datatojson_def)

lemma emission_port_point:
  "tags p = sensor_tags ipx s \<Longrightarrow> emission_port (SensorPoint p) = Some (sensorport s)"
  by (simp add: emission_port_def sensor_tags_def)

lemma convert_loop_props:
  "convert_loop ipx xs = Inr (ys, written) \<Longrightarrow>
     list_all2 same_identity xs ys \<and>
     (\<forall>j<length xs. sensorvendorid (xs ! j) \<noteq> PInt 310 \<longrightarrow> json (ys ! j) = NoPoints) \<and>
     (\<forall>j<length xs. json (ys ! j) \<noteq> NoPoints \<longrightarrow> sensorvendorid (xs ! j) = PInt 310) \<and>
     (\<forall>e\<in>set written. \<exists>j<length xs. sensorvendorid (xs ! j) = PInt 310 \<and>
          emission_port e = Some (sensorport (xs ! j)))"
proof (induction xs arbitrary: ys written)
  case Nil then show ?case by simp
next
  case (Cons s xs)
  from Cons.prems obtain r ys' written' where r: "datatojson ipx s = Inr r"
    and l: "convert_loop ipx xs = Inr (ys', written')"
    and ys: "ys = s\<lparr>json := json_of r\<rparr> # ys'"
    and wr: "written = (case r of None \<Rightarrow> [] | Some p \<Rightarrow> [SensorPoint p]) @ written'"
    by (auto simp: ebind_eq_Inr)
  note ih = Cons.IH[OF l]
  have "same_identity s (s\<lparr>json := json_of r\<rparr>)" by (simp add: same_identity_def)
  with ih ys have a: "list_all2 same_identity (s # xs) ys" by simp
  have b: "\<forall>j<length (s # xs). sensorvendorid ((s # xs) ! j) \<noteq> PInt 310 \<longrightarrow> json (ys ! j) = NoPoints"
  proof (intro allI impI)
    fix j assume j: "j < length (s # xs)" and v: "sensorvendorid ((s # xs) ! j) \<noteq> PInt 310"
    show "json (ys ! j) = NoPoints"
    proof (cases j)
      case 0
      with v r datatojson_other_vendor[of s ipx] show ?thesis by (simp add: ys json_of_def)
    next
      case (Suc k) with j v ih show ?thesis by (simp add: ys)
    qed
  qed
  have b2: "\<forall>j<length (s # xs). json (ys ! j) \<noteq> NoPoints \<longrightarrow> sensorvendorid ((s # xs) ! j) = PInt 310"
    using b by blast
  have c: "\<forall>e\<in>set written. \<exists>j<length (s # xs). sensorvendorid ((s # xs) ! j) = PInt 310 \<and>
          emission_port e = Some (sensorport ((s # xs) ! j))"
  proof
    fix e assume "e \<in> set written"
    then consider p where "r = Some p" "e = SensorPoint p" | "e \<in> set written'"
      by (auto simp: wr split: option.splits)
    then show "\<exists>j<length (s # xs). sensorvendorid ((s # xs) ! j) = PInt 310 \<and>
          emission_port e = Some (sensorport ((s # xs) ! j))"
    proof cases
      case 1
      with r datatojson_Some[of ipx s p] have "sensorvendorid s = PInt 310"
        "emission_port e = Some (sensorport s)" by (auto simp: emission_port_point)
      then show ?thesis by (intro exI[of _ 0]) simp
    next
      case 2
      with ih obtain j where "j < length xs" "sensorvendorid (xs ! j) = PInt 310"
        "emission_port e = Some (sensorport (xs ! j))" by blast
      then show ?thesis by (intro exI[of _ "Suc j"]) simp
    qed
  qed
  from a b b2 c show ?case by blast
qed

lemma compare_port_same: "compare_port (Some xs) xs j = Inr evs \<Longrightarrow> evs = []"
  by (auto simp: compare_port_def item_def ebind_eq_Inr split: if_splits)

lemma alert_Inr: "alert cur ev = Inr evs \<Longrightarrow> evs = [Saas ''SENSOR'' ev (sensorport cur)]"
  by (auto simp: alert_def ebind_eq_Inr)

lemma check_vibration_events:
  "check_vibration prr cur d srch = Inr (fl, evs) \<Longrightarrow> e \<in> set evs \<Longrightarrow>
     emission_port e = Some (sensorport cur)"
  by (auto simp: check_vibration_def except_KeyError_Inr ebind_eq_Inr emission_port_def
      split: if_splits dest!: alert_Inr)

lemma check_temperature_events:
  "check_temperature prr cur d srch = Inr (fl, evs) \<Longrightarrow> e \<in> set evs \<Longrightarrow>
     emission_port e = Some (sensorport cur)"
  by (auto simp: check_temperature_def except_KeyError_Inr ebind_eq_Inr emission_port_def
      split: if_splits dest!: alert_Inr)

lemma check_thresholds_events:
  assumes "check_thresholds prr xs j = Inr (fl, evs)" "e \<in> set evs"
  shows "j < length xs \<and> json (xs ! j) \<noteq> NoPoints \<and> emission_port e = Some (sensorport (xs ! j))"
  using assms
  by (auto simp: check_thresholds_def item_def ebind_eq_Inr Let_def
      split: if_splits jsonattr.splits
      dest: check_vibration_events check_temperature_events)

lemma port_loop_events:
  "port_loop prr (Some xs) xs js = Inr evs \<Longrightarrow> e \<in> set evs \<Longrightarrow>
     \<exists>j<length xs. json (xs ! j) \<noteq> NoPoints \<and> emission_port e = Some (sensorport (xs ! j))"
proof (induction js arbitrary: evs)
  case Nil then show ?case by simp
next
  case (Cons j js)
  from Cons.prems(1) obtain changes fl alerts where c: "compare_port (Some xs) xs j = Inr changes"
    and t: "check_thresholds prr xs j = Inr (fl, alerts)"
    and r: "(case fl of Break \<Rightarrow> Inr (changes @ alerts)
             | Next \<Rightarrow> ebind (port_loop prr (Some xs) xs js) (\<lambda>more. Inr (changes @ alerts @ more))) = Inr evs"
    by (auto simp: ebind_eq_Inr)
  from compare_port_same[OF c] have ch: "changes = []" .
  show ?case
  proof (cases fl)
    case Break
    with r ch Cons.prems(2) have "e \<in> set alerts" by simp
    from check_thresholds_events[OF t this] show ?thesis by blast
  next
    case Next
    with r ch obtain more where m: "port_loop prr (Some xs) xs js = Inr more" "evs = alerts @ more"
      by (auto simp: ebind_eq_Inr)
    with Cons.prems(2) consider "e \<in> set alerts" | "e \<in> set more" by auto
    then show ?thesis
    proof cases
      case 1 from check_thresholds_events[OF t this] show ?thesis by blast
    next
      case 2 from Cons.IH[OF m(1) this] show ?thesis .
    qed
  qed
qed

lemma partial_poll_Inr:
  assumes "partial_poll K w st = Inr st'"
  obtains ys lg where "refresh_loop w (store st (sensorlist st)) (requests st) = Inr (ys, lg)"
    "sensorlist st' = sensorlist st" "savesensorlist st' = savesensorlist st"
    "store st' = (store st)(sensorlist st := ys)" "outputs st' = outputs st" "requests st' = lg"
  using assms by (auto simp: partial_poll_def Let_def ebind_eq_Inr split: if_splits)

lemma full_poll_Inr:
  assumes "full_poll w st = Inr st'"
  obtains sensors lg9 lg10 info where "getsensorsondevices w lg9 = Inr (sensors, lg10)"
    "store st' (sensorlist st') = sensors" "savesensorlist st' = savesensorlist st"
    "outputs st' = outputs st @ [IolmPoint info]" "requests st' = lg10"
  using assms by (auto simp: full_poll_def Let_def ebind_eq_Inr)

lemma ports_aligned_identity:
  "list_all2 same_identity xs ys \<Longrightarrow> ports_aligned xs \<Longrightarrow> ports_aligned ys"
  by (auto simp: ports_aligned_def list_all2_conv_all_nth same_identity_def)

lemma getsensorsondevices_aligned:
  assumes "getsensorsondevices w lg = Inr (sensors, lg')"
  shows "ports_aligned sensors"
proof -
  from assms obtain n lg1 where "sensors_loop w [Suc 0 ..< Suc n] [] lg1 = Inr (sensors, lg')"
    by (auto simp: getsensorsondevices_def ebind_eq_Inr)
  from sensors_loop_inv[OF this] show ?thesis by (auto simp: ports_aligned_def)
qed

lemma cycle_invariant:
  assumes c: "cycle K ipx prr w st = Inr st'"
    and a: "ports_aligned (store st (sensorlist st))"
  shows "ports_aligned (store st' (sensorlist st'))" and "savesensorlist st' = Some (sensorlist st')"
proof -
  from c obtain st1 sensors written n lg events where
    1: "(if fullinfo st then full_poll w (st\<lparr>itercount := itercount st + 1\<rparr>)
      else partial_poll K w (st\<lparr>itercount := itercount st + 1\<rparr>)) = Inr st1"
    and 2: "convert_loop ipx (store st1 (sensorlist st1)) = Inr (sensors, written)"
    and 5: "st' = st1\<lparr> store := (store st1)(sensorlist st1 := sensors),
                 outputs := outputs st1 @ written @ events,
                 requests := lg, savesensorlist := Some (sensorlist st1) \<rparr>"
    by (rule cycle_Inr)
  have "ports_aligned (store st1 (sensorlist st1))"
  proof (cases "fullinfo st")
    case True
    with 1 have "full_poll w (st\<lparr>itercount := itercount st + 1\<rparr>) = Inr st1" by simp
    then show ?thesis by (rule full_poll_Inr) (auto dest: getsensorsondevices_aligned)
  next
    case False
    with 1 have "partial_poll K w (st\<lparr>itercount := itercount st + 1\<rparr>) = Inr st1" by simp
    then show ?thesis
    proof (rule partial_poll_Inr)
      fix ys lg
      assume r: "refresh_loop w (store (st\<lparr>itercount := itercount st + 1\<rparr>)
            (sensorlist (st\<lparr>itercount := itercount st + 1\<rparr>))) (requests (st\<lparr>itercount := itercount st + 1\<rparr>)) = Inr (ys, lg)"
        and s: "sensorlist st1 = sensorlist (st\<lparr>itercount := itercount st + 1\<rparr>)"
          "store st1 = (store (st\<lparr>itercount := itercount st + 1\<rparr>))(sensorlist (st\<lparr>itercount := itercount st + 1\<rparr>) := ys)"
      from refresh_loop_identity[OF r] a have "ports_aligned ys"
        by (auto intro: ports_aligned_identity)
      with s show ?thesis by simp
    qed
  qed
  with convert_loop_props[OF 2] have "ports_aligned sensors"
    by (auto intro: ports_aligned_identity)
  with 5 show "ports_aligned (store st' (sensorlist st'))" by simp
  from 5 show "savesensorlist st' = Some (sensorlist st')" by simp
qed

lemma loop_invariant:
  assumes "getreadings_loop K ipx prr w n st = Inr st'" "ports_aligned (store st (sensorlist st))"
  shows "ports_aligned (store st' (sensorlist st')) \<and> (0 < n \<longrightarrow> savesensorlist st' = Some (sensorlist st'))"
  using assms
proof (induction n arbitrary: st')
  case 0 then show ?case by simp
next
  case (Suc n)
  from Suc.prems(1) obtain s where s: "getreadings_loop K ipx prr w n st = Inr s"
    and c: "cycle K ipx prr w s = Inr st'"
    unfolding loop_snoc by (auto simp: ebind_eq_Inr)
  from Suc.IH[OF s Suc.prems(2)] have "ports_aligned (store s (sensorlist s))" by simp
  from cycle_invariant[OF c this] show ?case by simp
qed

lemma getreadings_invariant:
  assumes "getreadings K ipx prr w n = Inr st"
  shows "ports_aligned (store st (sensorlist st))"
    and "\<not> fullinfo st \<Longrightarrow> savesensorlist st = Some (sensorlist st)"
proof -
  from assms obtain N lg where l: "getreadings_loop K ipx prr w n (start N lg) = Inr st"
    by (auto simp: getreadings_def ebind_eq_Inr)
  have a: "ports_aligned (store (start N lg) (sensorlist (start N lg)))"
    by (simp add: start_def ports_aligned_def)
  from loop_invariant[OF l a] show "ports_aligned (store st (sensorlist st))" by simp
  assume nf: "\<not> fullinfo st"
  have "0 < n"
  proof (rule ccontr)
    assume "\<not> 0 < n"
    with l have "st = start N lg" by simp
    with nf show False by (simp add: start_def)
  qed
  with loop_invariant[OF l a] show "savesensorlist st = Some (sensorlist st)" by simp
qed

lemma silent_cycle:
  assumes c: "cycle K ipx prr w st = Inr st'"
    and nf: "\<not> fullinfo st"
    and al: "ports_aligned (store st (sensorlist st))"
    and sv: "savesensorlist st = Some (sensorlist st)"
    and i: "i < length (store st (sensorlist st))"
    and v: "sensorvendorid (store st (sensorlist st) ! i) \<noteq> PInt 310"
  shows "sensorlist st' = sensorlist st"
    and "list_all2 same_identity (store st (sensorlist st)) (store st' (sensorlist st'))"
    and "json (store st' (sensorlist st') ! i) = NoPoints"
    and "\<exists>new. outputs st' = outputs st @ new \<and> (\<forall>e\<in>set new. emission_port e \<noteq> Some (i + 1))"
proof -
  let ?st = "st\<lparr>itercount := itercount st + 1\<rparr>"
  let ?xs = "store st (sensorlist st)"
  from c nf obtain st1 sensors written n lg events where
    1: "partial_poll K w ?st = Inr st1"
    and 2: "convert_loop ipx (store st1 (sensorlist st1)) = Inr (sensors, written)"
    and 4: "port_loop prr (map_option ((store st1)(sensorlist st1 := sensors)) (savesensorlist st1))
        sensors [0 ..< n - 1] = Inr events"
    and 5: "st' = st1\<lparr> store := (store st1)(sensorlist st1 := sensors),
                 outputs := outputs st1 @ written @ events,
                 requests := lg, savesensorlist := Some (sensorlist st1) \<rparr>"
    by (auto elim!: cycle_Inr)
  from 1 obtain ys lg0 where r: "refresh_loop w ?xs (requests st) = Inr (ys, lg0)"
    and s1: "sensorlist st1 = sensorlist st" "savesensorlist st1 = Some (sensorlist st)"
      "store st1 = (store st)(sensorlist st := ys)" "outputs st1 = outputs st"
    using sv by (auto elim!: partial_poll_Inr)
  from refresh_loop_identity[OF r] have xy: "list_all2 same_identity ?xs ys" .
  from 2 s1 have cv: "convert_loop ipx ys = Inr (sensors, written)" by simp
  from convert_loop_props[OF cv] have ysn: "list_all2 same_identity ys sensors"
    and jn: "\<forall>j<length ys. sensorvendorid (ys ! j) \<noteq> PInt 310 \<longrightarrow> json (sensors ! j) = NoPoints"
    and wr: "\<forall>e\<in>set written. \<exists>j<length ys. sensorvendorid (ys ! j) = PInt 310 \<and>
          emission_port e = Some (sensorport (ys ! j))"
    by blast+
  have len: "length ys = length ?xs" "length sensors = length ?xs"
    using list_all2_lengthD[OF xy] list_all2_lengthD[OF ysn] by simp_all
  have ay: "ports_aligned ys" using xy al by (rule ports_aligned_identity)
  have an: "ports_aligned sensors" using ysn ay by (rule ports_aligned_identity)
  have vy: "sensorvendorid (ys ! i) \<noteq> PInt 310"
    using xy i v by (auto simp: list_all2_conv_all_nth same_identity_def)
  have ji: "json (sensors ! i) = NoPoints" using jn vy i len by simp
  from 4 s1 have pl: "port_loop prr (Some sensors) sensors [0 ..< n - 1] = Inr events" by simp
  show "sensorlist st' = sensorlist st" using 5 s1 by simp
  show "list_all2 same_identity ?xs (store st' (sensorlist st'))"
  proof -
    have "list_all2 same_identity ?xs sensors"
      using same_identity_trans xy ysn by (rule list_all2_trans)
    then show ?thesis using 5 s1 by simp
  qed
  show "json (store st' (sensorlist st') ! i) = NoPoints" using 5 s1 ji by simp
  have "\<forall>e\<in>set (written @ events). emission_port e \<noteq> Some (i + 1)"
  proof
    fix e assume "e \<in> set (written @ events)"
    then consider "e \<in> set written" | "e \<in> set events" by auto
    then show "emission_port e \<noteq> Some (i + 1)"
    proof cases
      case 1
      with wr obtain j where j: "j < length ys" "sensorvendorid (ys ! j) = PInt 310"
        "emission_port e = Some (sensorport (ys ! j))" by blast
      with vy have "j \<noteq> i" by auto
      moreover from ay j(1) have "sensorport (ys ! j) = j + 1" by (simp add: ports_aligned_def)
      ultimately show ?thesis using j(3) by simp
    next
      case 2
      from port_loop_events[OF pl 2] obtain j where j: "j < length sensors"
        "json (sensors ! j) \<noteq> NoPoints" "emission_port e = Some (sensorport (sensors ! j))" by blast
      with ji have "j \<noteq> i" by auto
      moreover from an j(1) have "sensorport (sensors ! j) = j + 1" by (simp add: ports_aligned_def)
      ultimately show ?thesis using j(3) by simp
    qed
  qed
  moreover have "outputs st' = outputs st @ (written @ events)" using 5 s1 by simp
  ultimately show "\<exists>new. outputs st' = outputs st @ new \<and> (\<forall>e\<in>set new. emission_port e \<noteq> Some (i + 1))"
    by blast
qed

lemma getreadings_snoc:
  "getreadings K ipx prr w (Suc n) = ebind (getreadings K ipx prr w n) (cycle K ipx prr w)"
  unfolding getreadings_def
  by (cases "getportcount w []") (auto simp: loop_snoc simp del: getreadings_loop.simps)

text \<open>
  C10. Take the state after \<open>n\<close> cycles and a port whose record holds the empty type,
  serial and vendor id, and let the next \<open>m\<close> cycles all be partial polls. Then after
  them the record of the port still holds the empty type, serial and vendor id, its
  \<^verbatim>\<open>json\<close> is \<^verbatim>\<open>None\<close> (no measurement), and nothing emitted in these cycles is about
  that port: no sensor point, no change event, no alert. This holds whatever the master
  answers in these cycles, also when it reports a sensor on the port and delivers its
  process data.
\<close>

theorem empty_port_is_silent_in_partial_polls:
  assumes run: "getreadings K ipx prr w n = Inr st"
    and later: "getreadings K ipx prr w (n + m) = Inr st'"
    and partial: "\<forall>j<m. \<forall>s. getreadings K ipx prr w (n + j) = Inr s \<longrightarrow> \<not> fullinfo s"
    and i: "i < length (store st (sensorlist st))"
    and empty: "sensortype (store st (sensorlist st) ! i) = PStr []
        \<and> sensorserial (store st (sensorlist st) ! i) = PStr []
        \<and> sensorvendorid (store st (sensorlist st) ! i) = PStr []"
  shows "i < length (store st' (sensorlist st'))
       \<and> sensortype (store st' (sensorlist st') ! i) = PStr []
       \<and> sensorserial (store st' (sensorlist st') ! i) = PStr []
       \<and> sensorvendorid (store st' (sensorlist st') ! i) = PStr []
       \<and> (0 < m \<longrightarrow> json (store st' (sensorlist st') ! i) = NoPoints)
       \<and> (\<exists>new. outputs st' = outputs st @ new \<and> (\<forall>e\<in>set new. emission_port e \<noteq> Some (i + 1)))"
  using later partial
proof (induction m arbitrary: st')
  case 0
  with run have "st' = st" by simp
  with i empty show ?case by simp
next
  case (Suc m)
  from Suc.prems(1) obtain s where s: "getreadings K ipx prr w (n + m) = Inr s"
    and c: "cycle K ipx prr w s = Inr st'"
    by (auto simp: getreadings_snoc ebind_eq_Inr)
  from Suc.prems(2) have p: "\<forall>j<m. \<forall>s. getreadings K ipx prr w (n + j) = Inr s \<longrightarrow> \<not> fullinfo s"
    by (meson less_SucI)
  from Suc.IH[OF s p] obtain new where
    ih: "i < length (store s (sensorlist s))"
      "sensortype (store s (sensorlist s) ! i) = PStr []"
      "sensorserial (store s (sensorlist s) ! i) = PStr []"
      "sensorvendorid (store s (sensorlist s) ! i) = PStr []"
      "outputs s = outputs st @ new" "\<forall>e\<in>set new. emission_port e \<noteq> Some (i + 1)"
    by blast
  from Suc.prems(2) s have nf: "\<not> fullinfo s" by blast
  note inv = getreadings_invariant[OF s]
  have v: "sensorvendorid (store s (sensorlist s) ! i) \<noteq> PInt 310" using ih(4) by simp
  note sc = silent_cycle[OF c nf inv(1) inv(2)[OF nf] ih(1) v]
  from sc(2) ih(1) have l: "i < length (store st' (sensorlist st'))"
    and id: "same_identity (store s (sensorlist s) ! i) (store st' (sensorlist st') ! i)"
    by (auto simp: list_all2_conv_all_nth)
  from sc(4) obtain new' where n': "outputs st' = outputs s @ new'"
    "\<forall>e\<in>set new'. emission_port e \<noteq> Some (i + 1)" by blast
  have "outputs st' = outputs st @ (new @ new')" using n'(1) ih(5) by simp
  moreover have "\<forall>e\<in>set (new @ new'). emission_port e \<noteq> Some (i + 1)" using n'(2) ih(6) by auto
  ultimately have "\<exists>new. outputs st' = outputs st @ new \<and> (\<forall>e\<in>set new. emission_port e \<noteq> Some (i + 1))"
    by blast
  with l id ih sc(3) show ?case by (simp add: same_identity_def)
qed

theorem empty_port_is_silent_in_partial_polls_witness:
  "\<exists>st st'. getreadings 5 ''10.0.0.7'' temperature_limits late_sensor 1 = Inr st
     \<and> getreadings 5 ''10.0.0.7'' temperature_limits late_sensor 3 = Inr st'
     \<and> sensorprocessdata (store st' (sensorlist st') ! 0) = PStr ''04B0012C0A30''
     \<and> sensortype (store st' (sensorlist st') ! 0) = PStr []
     \<and> sensorserial (store st' (sensorlist st') ! 0) = PStr []
     \<and> sensorvendorid (store st' (sensorlist st') ! 0) = PStr []
     \<and> json (store st' (sensorlist st') ! 0) = NoPoints
     \<and> (\<exists>new. outputs st' = outputs st @ new \<and> list_all (\<lambda>e. emission_port e \<noteq> Some 1) new)"
proof -
  let ?run = "getreadings 5 ''10.0.0.7'' temperature_limits late_sensor"
  let ?p = "\<lambda>st. (fullinfo st, length (store st (sensorlist st)),
      sensortype (store st (sensorlist st) ! 0), sensorserial (store st (sensorlist st) ! 0),
      sensorvendorid (store st (sensorlist st) ! 0), sensorprocessdata (store st (sensorlist st) ! 0))"
  have e1: "map_sum id ?p (?run 1) = Inr (False, 2, PStr [], PStr [], PStr [], PNone)"
    by code_simp
  have e2: "map_sum id fullinfo (?run 2) = Inr False"
    by code_simp
  have e3: "map_sum id ?p (?run 3) = Inr (False, 2, PStr [], PStr [], PStr [], PStr ''04B0012C0A30'')"
    by code_simp
  from e1 obtain st where st: "?run 1 = Inr st" by (cases "?run 1") auto
  from e3 obtain st' where st3: "?run 3 = Inr st'" by (cases "?run 3") auto
  have n3: "(1::nat) + 2 = 3" by simp
  have st': "?run (1 + 2) = Inr st'" unfolding n3 by (rule st3)
  have p: "\<forall>j<2. \<forall>s. ?run (1 + j) = Inr s \<longrightarrow> \<not> fullinfo s"
  proof (intro allI impI)
    fix j :: nat and s assume "j < 2" and s: "?run (1 + j) = Inr s"
    then consider "j = 0" | "j = 1" by linarith
    then show "\<not> fullinfo s"
    proof cases
      case 1
      with s have "?run 1 = Inr s" by (metis add.right_neutral)
      with e1 show ?thesis by simp
    next
      case 2
      with s have "?run 2 = Inr s" by (metis one_add_one)
      with e2 show ?thesis by simp
    qed
  qed
  have i: "0 < length (store st (sensorlist st))" using e1 st by simp
  have em: "sensortype (store st (sensorlist st) ! 0) = PStr []
        \<and> sensorserial (store st (sensorlist st) ! 0) = PStr []
        \<and> sensorvendorid (store st (sensorlist st) ! 0) = PStr []"
    using e1 st by simp
  from empty_port_is_silent_in_partial_polls[OF st st' p i em] e3 st st3
  show ?thesis by (auto simp: list_all_iff)
qed

section \<open>Requests without a response\<close>

lemma needs_answersD:
  "needs_answers f k len \<Longrightarrow> no_response r \<Longrightarrow> f w = Inr x \<Longrightarrow>
     k \<le> len x \<and> f (unanswered_at i r w) = (if k \<le> i \<and> i < len x then Inl (raised r) else Inr x)"
  unfolding needs_answers_def by blast

lemma needs_answers_bind:
  assumes f: "needs_answers f k lena" and g: "\<And>x. needs_answers (g x) (lena x) lenb"
  shows "needs_answers (\<lambda>w. ebind (f w) (\<lambda>x. g x w)) k lenb"
  unfolding needs_answers_def
proof (intro allI impI)
  fix w y i r
  assume r: "no_response r" and e: "ebind (f w) (\<lambda>x. g x w) = Inr y"
  then obtain x where x: "f w = Inr x" and y: "g x w = Inr y" by (auto simp: ebind_eq_Inr)
  from needs_answersD[OF f r x, of i] have 1: "k \<le> lena x"
    "f (unanswered_at i r w) = (if k \<le> i \<and> i < lena x then Inl (raised r) else Inr x)" by auto
  from needs_answersD[OF g r y, of i] have 2: "lena x \<le> lenb y"
    "g x (unanswered_at i r w) = (if lena x \<le> i \<and> i < lenb y then Inl (raised r) else Inr y)" by auto
  show "k \<le> lenb y \<and> ebind (f (unanswered_at i r w)) (\<lambda>x. g x (unanswered_at i r w)) =
      (if k \<le> i \<and> i < lenb y then Inl (raised r) else Inr y)"
    using 1 2 by auto
qed

lemma needs_answers_pure:
  assumes "\<And>x. m = Inr x \<Longrightarrow> needs_answers (g x) k len"
  shows "needs_answers (\<lambda>w. ebind m (\<lambda>x. g x w)) k len"
proof (cases m)
  case (Inl e) then show ?thesis by (simp add: needs_answers_def)
next
  case (Inr x)
  with assms[OF Inr] show ?thesis by simp
qed

lemma needs_answers_return: "len x = k \<Longrightarrow> needs_answers (\<lambda>w. Inr x) k len"
  by (auto simp: needs_answers_def)

lemma needs_answers_pure_return:
  "(\<And>x. len (h x) = k) \<Longrightarrow> needs_answers (\<lambda>w. ebind m (\<lambda>x. Inr (h x))) k len"
  by (rule needs_answers_pure) (simp add: needs_answers_return)

lemma needs_answers_raise: "needs_answers (\<lambda>w. Inl e) k len"
  by (simp add: needs_answers_def)

lemma needs_answers_if:
  "needs_answers f k len \<Longrightarrow> needs_answers g k len \<Longrightarrow> needs_answers (\<lambda>w. if c then f w else g w) k len"
  by (cases c) simp_all

lemma httpget_unanswered:
  "no_response r \<Longrightarrow> httpget (unanswered_at i r w) p lg =
     (if length lg = i then Inl (raised r) else httpget w p lg)"
  by (auto simp: httpget_def unanswered_at_def no_response_def raised_def)

lemma httpget_raw_unanswered:
  "no_response r \<Longrightarrow> httpget_raw (unanswered_at i r w) p lg =
     (if length lg = i then Inl (raised r) else httpget_raw w p lg)"
  by (auto simp: httpget_raw_def unanswered_at_def no_response_def raised_def)

lemma httpget_raw_Inr:
  "httpget_raw w path lg = Inr (c, lg') \<longleftrightarrow>
     w (length lg) path = Response True c \<and> lg' = lg @ [path]"
  by (auto simp: httpget_raw_def split: response.splits)

lemma needs_answers_httpget:
  "needs_answers (\<lambda>w. httpget w p lg) (length lg) (\<lambda>x. length (snd x))"
  unfolding needs_answers_def
proof (intro allI impI)
  fix w x i r
  assume r: "no_response r" and e: "httpget w p lg = Inr x"
  then have l: "snd x = lg @ [p]" by (cases x) (simp add: httpget_Inr)
  show "length lg \<le> length (snd x) \<and> httpget (unanswered_at i r w) p lg =
      (if length lg \<le> i \<and> i < length (snd x) then Inl (raised r) else Inr x)"
    using e by (auto simp: httpget_unanswered[OF r] l)
qed

lemma needs_answers_httpget_raw:
  "needs_answers (\<lambda>w. httpget_raw w p lg) (length lg) (\<lambda>x. length (snd x))"
  unfolding needs_answers_def
proof (intro allI impI)
  fix w x i r
  assume r: "no_response r" and e: "httpget_raw w p lg = Inr x"
  then have l: "snd x = lg @ [p]" by (cases x) (simp add: httpget_raw_Inr)
  show "length lg \<le> length (snd x) \<and> httpget_raw (unanswered_at i r w) p lg =
      (if length lg \<le> i \<and> i < length (snd x) then Inl (raised r) else Inr x)"
    using e by (auto simp: httpget_raw_unanswered[OF r] l)
qed

lemma needs_answers_getportcount:
  "needs_answers (\<lambda>w. getportcount w lg) (length lg) (\<lambda>x. length (snd x))"
  unfolding getportcount_def gettree_def
  by (rule needs_answers_bind[OF needs_answers_httpget_raw])
    (auto simp: needs_answers_return needs_answers_raise split: content.splits option.splits)

lemmas getter_defs = getipaddress_def getproductserial_def getvendor_def getdevicefamily_def
  gettemperature_def getsupervisionstatus_def getmilliamperes_def getproductcode_def getvolts_def
  getportdevicestatus_def getportsensordeviceid_def getportsensorlocalname_def
  getportsensorserial_def getportsensorvendorid_def getportsensorname_def
  getportsensorprocessdata_def

lemma needs_answers_sensor_on_port:
  "needs_answers (\<lambda>w. sensor_on_port w p lg) (length lg) (\<lambda>x. length (snd x))"
  unfolding sensor_on_port_def getter_defs
  by (intro needs_answers_bind[OF needs_answers_httpget] needs_answers_if)
    (auto intro!: needs_answers_bind[OF needs_answers_httpget] needs_answers_if needs_answers_return)


lemma needs_answers_sensors_loop:
  "needs_answers (\<lambda>w. sensors_loop w ps pf lg) (length lg) (\<lambda>x. length (snd x))"
proof (induction ps arbitrary: pf lg)
  case Nil show ?case by (simp add: needs_answers_return)
next
  case (Cons p ps)
  show ?case unfolding sensors_loop.simps
    by (rule needs_answers_bind[OF needs_answers_sensor_on_port]) (auto simp: Cons.IH)
qed

lemma needs_answers_getsensorsondevices:
  "needs_answers (\<lambda>w. getsensorsondevices w lg) (length lg) (\<lambda>x. length (snd x))"
  unfolding getsensorsondevices_def
  by (rule needs_answers_bind[OF needs_answers_getportcount])
    (auto simp: needs_answers_sensors_loop)

lemma needs_answers_refresh_loop:
  "needs_answers (\<lambda>w. refresh_loop w xs lg) (length lg) (\<lambda>x. length (snd x))"
proof (induction xs arbitrary: lg)
  case Nil show ?case by (simp add: needs_answers_return)
next
  case (Cons s xs)
  show ?case unfolding refresh_loop.simps getter_defs
    by (intro needs_answers_bind[OF needs_answers_httpget])
      (auto intro!: needs_answers_bind[OF needs_answers_httpget] needs_answers_bind[OF Cons.IH]
         needs_answers_bind[where f = "\<lambda>w. if _ then httpget w _ _ else Inr _"]
         needs_answers_if needs_answers_httpget needs_answers_return)
qed

lemma needs_answers_full_poll:
  "needs_answers (\<lambda>w. full_poll w st) (length (requests st)) (\<lambda>x. length (requests x))"
  unfolding full_poll_def getter_defs Let_def
  by (intro needs_answers_bind[OF needs_answers_httpget])
    (auto intro!: needs_answers_bind[OF needs_answers_httpget]
       needs_answers_bind[OF needs_answers_getsensorsondevices] needs_answers_return)

lemma needs_answers_partial_poll:
  "needs_answers (\<lambda>w. partial_poll K w st) (length (requests st)) (\<lambda>x. length (requests x))"
  unfolding partial_poll_def Let_def
  by (rule needs_answers_bind[where lena = "\<lambda>x. length (snd x)"])
    (auto intro!: needs_answers_return simp: needs_answers_refresh_loop)

lemma needs_answers_cycle:
  "needs_answers (\<lambda>w. cycle K ipx prr w st) (length (requests st)) (\<lambda>x. length (requests x))"
  unfolding cycle_def Let_def
proof (rule needs_answers_bind[where lena = "\<lambda>x. length (requests x)"])
  show "needs_answers (\<lambda>w. if fullinfo (st\<lparr>itercount := itercount st + 1\<rparr>)
        then full_poll w (st\<lparr>itercount := itercount st + 1\<rparr>)
        else partial_poll K w (st\<lparr>itercount := itercount st + 1\<rparr>))
      (length (requests st)) (\<lambda>x. length (requests x))"
    using needs_answers_full_poll[of "st\<lparr>itercount := itercount st + 1\<rparr>"]
      needs_answers_partial_poll[of K "st\<lparr>itercount := itercount st + 1\<rparr>"]
    by (auto intro: needs_answers_if)
next
  fix st1
  show "needs_answers (\<lambda>w. ebind (convert_loop ipx (store st1 (sensorlist st1)))
            (\<lambda>(sensors, written).
                ebind (getportcount w (requests
                    (st1\<lparr>store := (store st1)(sensorlist st1 := sensors),
                          outputs := outputs st1 @ written\<rparr>)))
                 (\<lambda>(n, lg).
                     ebind (port_loop prr
                        (map_option (store (st1\<lparr>store := (store st1)(sensorlist st1 := sensors),
                                  outputs := outputs st1 @ written\<rparr>))
                          (savesensorlist (st1\<lparr>store := (store st1)(sensorlist st1 := sensors),
                                  outputs := outputs st1 @ written\<rparr>)))
                        (store (st1\<lparr>store := (store st1)(sensorlist st1 := sensors),
                               outputs := outputs st1 @ written\<rparr>)
                          (sensorlist (st1\<lparr>store := (store st1)(sensorlist st1 := sensors),
                                 outputs := outputs st1 @ written\<rparr>)))
                        [0..<n - 1])
                      (\<lambda>events.
                          Inr (st1\<lparr>store := (store st1)(sensorlist st1 := sensors),
                                 outputs := outputs st1 @ written,
                                 requests := lg,
                                 outputs := outputs (st1\<lparr>store := (store st1)(sensorlist st1 := sensors),
                                        outputs := outputs st1 @ written\<rparr>) @ events,
                                 savesensorlist := Some (sensorlist
                                   (st1\<lparr>store := (store st1)(sensorlist st1 := sensors),
                                        outputs := outputs st1 @ written\<rparr>))\<rparr>)))))
         (length (requests st1)) (\<lambda>x. length (requests x))"
  proof (rule needs_answers_pure, clarify)
    fix sensors written
    let ?st2 = "st1\<lparr>store := (store st1)(sensorlist st1 := sensors), outputs := outputs st1 @ written\<rparr>"
    have "needs_answers (\<lambda>w. getportcount w (requests ?st2)) (length (requests st1)) (\<lambda>x. length (snd x))"
      using needs_answers_getportcount[of "requests st1"] by simp
    then show "needs_answers (\<lambda>w. 
                ebind (getportcount w (requests ?st2))
                 (\<lambda>(n, lg).
                     ebind (port_loop prr (map_option (store ?st2) (savesensorlist ?st2))
                        (store ?st2 (sensorlist ?st2)) [0..<n - 1])
                      (\<lambda>events.
                          Inr (?st2\<lparr>requests := lg, outputs := outputs ?st2 @ events,
                                 savesensorlist := Some (sensorlist ?st2)\<rparr>))))
         (length (requests st1)) (\<lambda>x. length (requests x))"
      by (rule needs_answers_bind)
        (auto intro!: needs_answers_pure_return)
  qed
qed

lemma needs_answers_loop:
  "needs_answers (\<lambda>w. getreadings_loop K ipx prr w n st) (length (requests st)) (\<lambda>x. length (requests x))"
proof (induction n arbitrary: st)
  case 0 show ?case by (simp add: needs_answers_return)
next
  case (Suc n)
  show ?case unfolding getreadings_loop.simps
    by (rule needs_answers_bind[OF needs_answers_cycle]) (rule Suc.IH)
qed

lemma needs_answers_getreadings:
  "needs_answers (\<lambda>w. getreadings K ipx prr w n) 0 (\<lambda>x. length (requests x))"
  unfolding getreadings_def
proof (rule needs_answers_bind[where lena = "\<lambda>x. length (snd x)"])
  show "needs_answers (\<lambda>w. getportcount w []) 0 (\<lambda>x. length (snd x))"
    using needs_answers_getportcount[of "[]"] by simp
next
  fix x :: "nat \<times> string list"
  show "needs_answers (\<lambda>w. case x of (n', lg) \<Rightarrow> getreadings_loop K ipx prr w n (start n' lg))
     (length (snd x)) (\<lambda>x. length (requests x))"
    using needs_answers_loop[of K ipx prr n "start (fst x) (snd x)"]
    by (cases x) (simp add: start_def)
qed

text \<open>
  C1, as the specification states it, fails. The master with three ports answers every
  request but one: the request number 30, for the process data of port 2 in the partial
  poll of the second cycle, runs into a connection timeout. The first cycle completes
  with 27 requests made; the second cycle does not continue with partial data, the loop
  ends with \<^verbatim>\<open>ConnectionError\<close>. With every request answered the two cycles complete
  with 33 requests.
\<close>

theorem single_timeout_counterexample:
  "map_sum id (\<lambda>st. length (requests st))
     (getreadings 5 ''10.0.0.7'' limits_with_acceleration
        (unanswered_at 30 RequestsConnectTimeout three_ports) 1) = Inr 27
   \<and> map_sum id requests
     (getreadings 5 ''10.0.0.7'' limits_with_acceleration
        (unanswered_at 30 RequestsConnectTimeout three_ports) 2) = Inl ConnectionError
   \<and> map_sum id (\<lambda>st. (length (requests st), requests st ! 30))
     (getreadings 5 ''10.0.0.7'' limits_with_acceleration three_ports 2)
       = Inr (33, ''/iolinkmaster/port[2]/iolinkdevice/pdin/getdata'')"
  by code_simp

text \<open>
  C1, amended. If the loop completes \<open>n\<close> cycles against a master, then against the
  same master with any single one of the requests made in these cycles left without a
  response it ends with an error: with \<^verbatim>\<open>ConnectionError\<close> after a connection timeout or a
  connection error, which \<^verbatim>\<open>httpget\<close> raises itself, and with the exception of the
  library otherwise. Nothing in \<^verbatim>\<open>getreadings\<close> catches either.
\<close>

theorem unanswered_request_ends_the_loop:
  assumes "r = RequestsConnectTimeout \<or> r = RequestsConnectionError \<or> r = RequestsOther"
    and "getreadings iterations ipx prr w n = Inr st" and "i < length (requests st)"
  shows "getreadings iterations ipx prr (unanswered_at i r w) n =
           Inl (if r = RequestsOther then RequestException else ConnectionError)"
proof -
  from assms(1) have "no_response r" by (simp add: no_response_def)
  from needs_answersD[OF needs_answers_getreadings this assms(2), of i] assms(3)
  show ?thesis by (simp add: raised_def)
qed

theorem unanswered_request_ends_the_loop_witness:
  "map_sum id (\<lambda>st. length (requests st)) (getreadings 5 ''10.0.0.7'' no_limits no_ports 1) = Inr 12
   \<and> getreadings 5 ''10.0.0.7'' no_limits (unanswered_at 5 RequestsConnectionError no_ports) 1
       = Inl ConnectionError"
proof -
  have e: "map_sum id (\<lambda>st. length (requests st)) (getreadings 5 ''10.0.0.7'' no_limits no_ports 1) = Inr 12"
    by code_simp
  then obtain st where st: "getreadings 5 ''10.0.0.7'' no_limits no_ports 1 = Inr st"
    and l: "length (requests st) = 12"
    by (cases "getreadings 5 ''10.0.0.7'' no_limits no_ports 1") auto
  from l have "5 < length (requests st)" by simp
  from unanswered_request_ends_the_loop[OF _ st this, of RequestsConnectionError] e
  show ?thesis by simp
qed

end
